theory Spec2Isabelle
  imports Main
begin

section \<open>The state handles of \<open>pyspark/sql/streaming/stateful_processor.py\<close>\<close>

text \<open>
  The module declares three concrete classes, \<open>ValueState\<close>, \<open>ListState\<close> and
  \<open>StatefulProcessorHandle\<close>, and the abstract class \<open>StatefulProcessor\<close>. Every method
  body except \<open>StatefulProcessorHandle.getListState\<close> and the three constructors is the
  single statement \<open>pass\<close>: such a method touches no object and returns Python's \<open>None\<close>.

  Objects of class \<open>StateApiClient\<close> are shared by reference, so they live in a store that
  maps a reference to the state of the client object behind it. The class itself is not
  part of the module; its state is the type parameter \<open>'c\<close>.
\<close>

subsection \<open>Values and errors\<close>

type_synonym ref = nat

type_synonym 'c heap = "ref \<Rightarrow> 'c"

text \<open>\<open>Union[StructType, str]\<close>: a schema is a DDL string or a list of named, typed fields.\<close>

datatype schema = SchemaStr string | StructType "(string \<times> string) list"

record ValueState =
  vs_state_api_client :: ref
  vs_state_name :: string

record ListState =
  ls_state_api_client :: ref
  ls_state_name :: string

record StatefulProcessorHandle =
  state_api_client :: ref

text \<open>
  The values the methods take and return are typed \<open>Any\<close>, \<open>bool\<close>, \<open>Iterator[...]\<close>,
  \<open>ValueState\<close> and \<open>ListState\<close>; \<open>PyIter xs\<close> is an iterator that yields \<open>xs\<close> in order.
\<close>

datatype pyval =
    PyNone
  | PyBool bool
  | PyInt int
  | PyStr string
  | PyIter "pyval list"
  | PyValueState ValueState
  | PyListState ListState


text \<open>
  Modelled from the spec: the module defines no exception class of its own; these are the
  errors of the taxonomy in section 7 of the specification.
\<close>

datatype error =
    SchemaConflict
  | InvalidSchema
  | InvalidKeyState
  | BackendUnavailable
  | HandleClosed

text \<open>
  A method call yields what it returns (or the exception it raises), the receiver after
  the call and the store after the call.
\<close>

type_synonym ('s, 'c) outcome = "(error + pyval) \<times> 's \<times> 'c heap"

definition self_of :: "('s, 'c) outcome \<Rightarrow> 's" where
  "self_of r = fst (snd r)"

definition heap_of :: "('s, 'c) outcome \<Rightarrow> 'c heap" where
  "heap_of r = snd (snd r)"

text \<open>
  \<open>a(); b()\<close> on the same receiver: when the first call raises, the second never runs;
  otherwise the value of the first call is dropped.
\<close>

definition then_call ::
  "('s, 'c) outcome \<Rightarrow> ('s \<Rightarrow> 'c heap \<Rightarrow> ('s, 'c) outcome) \<Rightarrow> ('s, 'c) outcome" where
  "then_call r m =
     (case r of
        (Inl e, s, hp) \<Rightarrow> (Inl e, s, hp)
      | (Inr v, s, hp) \<Rightarrow> m s hp)"

subsection \<open>\<open>class ValueState\<close>\<close>

definition ValueState_init :: "ref \<Rightarrow> string \<Rightarrow> ValueState" where
  "ValueState_init state_api_client' state_name =
     \<lparr>vs_state_api_client = state_api_client', vs_state_name = state_name\<rparr>"

definition ValueState_exists :: "ValueState \<Rightarrow> 'c heap \<Rightarrow> (ValueState, 'c) outcome" where
  "ValueState_exists self hp = (Inr PyNone, self, hp)"

definition ValueState_get :: "ValueState \<Rightarrow> 'c heap \<Rightarrow> (ValueState, 'c) outcome" where
  "ValueState_get self hp = (Inr PyNone, self, hp)"

definition ValueState_update ::
  "ValueState \<Rightarrow> pyval \<Rightarrow> 'c heap \<Rightarrow> (ValueState, 'c) outcome" where
  "ValueState_update self new_value hp = (Inr PyNone, self, hp)"

definition ValueState_remove :: "ValueState \<Rightarrow> 'c heap \<Rightarrow> (ValueState, 'c) outcome" where
  "ValueState_remove self hp = (Inr PyNone, self, hp)"

subsection \<open>\<open>class ListState\<close>\<close>

definition ListState_init :: "ref \<Rightarrow> string \<Rightarrow> ListState" where
  "ListState_init state_api_client' state_name =
     \<lparr>ls_state_api_client = state_api_client', ls_state_name = state_name\<rparr>"

definition ListState_exists :: "ListState \<Rightarrow> 'c heap \<Rightarrow> (ListState, 'c) outcome" where
  "ListState_exists self hp = (Inr PyNone, self, hp)"

definition ListState_get :: "ListState \<Rightarrow> 'c heap \<Rightarrow> (ListState, 'c) outcome" where
  "ListState_get self hp = (Inr PyNone, self, hp)"

definition ListState_update ::
  "ListState \<Rightarrow> pyval \<Rightarrow> 'c heap \<Rightarrow> (ListState, 'c) outcome" where
  "ListState_update self new_value hp = (Inr PyNone, self, hp)"

definition ListState_remove :: "ListState \<Rightarrow> 'c heap \<Rightarrow> (ListState, 'c) outcome" where
  "ListState_remove self hp = (Inr PyNone, self, hp)"

subsection \<open>\<open>class StatefulProcessorHandle\<close>\<close>

definition StatefulProcessorHandle_init :: "ref \<Rightarrow> StatefulProcessorHandle" where
  "StatefulProcessorHandle_init state_api_client' = \<lparr>state_api_client = state_api_client'\<rparr>"

definition getValueState ::
  "StatefulProcessorHandle \<Rightarrow> string \<Rightarrow> schema \<Rightarrow> 'c heap
     \<Rightarrow> (StatefulProcessorHandle, 'c) outcome" where
  "getValueState self state_name sch hp = (Inr PyNone, self, hp)"

text \<open>
  \<open>getListState\<close> first calls \<open>self.state_api_client.getListState(state_name, schema)\<close>
  and drops what it returns; an exception of that call leaves \<open>getListState\<close> at once.
  Then it builds \<open>ListState(self.state_api_client, state_name)\<close>. The client's method
  belongs to a class outside the module, so it is the parameter \<open>client_getListState\<close>:
  given the name, the schema and the state of the client object it returns a value or an
  error, and the state the client object is left in. The client holds no reference to the
  handle, so the call changes no other object.
\<close>

definition getListState ::
  "(string \<Rightarrow> schema \<Rightarrow> 'c \<Rightarrow> (error + pyval) \<times> 'c)
     \<Rightarrow> StatefulProcessorHandle \<Rightarrow> string \<Rightarrow> schema \<Rightarrow> 'c heap
     \<Rightarrow> (StatefulProcessorHandle, 'c) outcome" where
  "getListState client_getListState self state_name sch hp =
     (case client_getListState state_name sch (hp (state_api_client self)) of
        (Inl e, c') \<Rightarrow> (Inl e, self, hp(state_api_client self := c'))
      | (Inr v, c') \<Rightarrow>
          (Inr (PyListState (ListState_init (state_api_client self) state_name)),
           self, hp(state_api_client self := c')))"

subsection \<open>\<open>class StatefulProcessor\<close>\<close>

text \<open>
  The three methods are abstract; the bodies below are what the base class itself
  contains, and what \<open>super().close()\<close> runs in a concrete processor.
\<close>

definition StatefulProcessor_init ::
  "'p \<Rightarrow> StatefulProcessorHandle \<Rightarrow> 'c heap \<Rightarrow> ('p, 'c) outcome" where
  "StatefulProcessor_init self handle hp = (Inr PyNone, self, hp)"

definition handleInputRows :: "'p \<Rightarrow> pyval \<Rightarrow> pyval \<Rightarrow> 'c heap \<Rightarrow> ('p, 'c) outcome" where
  "handleInputRows self key rows hp = (Inr PyNone, self, hp)"

definition StatefulProcessor_close :: "'p \<Rightarrow> 'c heap \<Rightarrow> ('p, 'c) outcome" where
  "StatefulProcessor_close self hp = (Inr PyNone, self, hp)"

subsection \<open>A registry client\<close>

text \<open>
  Modelled from the spec: the class \<open>StateApiClient\<close> is imported from
  \<open>pyspark.sql.streaming.state_api_client\<close>, which is not part of the module. Section 4.1
  of the specification describes its registration of a list variable: it fails with
  \<open>BackendUnavailable\<close> when the connection is lost, with \<open>SchemaConflict\<close> when the name
  is already registered with a different schema, with \<open>InvalidSchema\<close> when the backend
  does not accept the schema, and is idempotent for an identical (name, schema) pair. The
  descriptor reference it returns is opaque; the name stands for it.
\<close>

datatype kind = ScalarKind | ListKind

record registry =
  connected :: bool
  accepts :: "schema \<Rightarrow> bool"
  registered :: "string \<rightharpoonup> kind \<times> schema"

definition registerList :: "string \<Rightarrow> schema \<Rightarrow> registry \<Rightarrow> (error + pyval) \<times> registry" where
  "registerList name sch c =
     (if \<not> connected c then (Inl BackendUnavailable, c)
      else case registered c name of
        Some (k, s) \<Rightarrow> if s = sch then (Inr (PyStr name), c) else (Inl SchemaConflict, c)
      | None \<Rightarrow>
          if accepts c sch
          then (Inr (PyStr name), c\<lparr>registered := (registered c)(name \<mapsto> (ListKind, sch))\<rparr>)
          else (Inl InvalidSchema, c))"

subsection \<open>Concrete objects\<close>

definition accept_all :: "schema \<Rightarrow> bool" where
  "accept_all sch = True"

definition registry0 :: registry where
  "registry0 = \<lparr>connected = True, accepts = accept_all, registered = Map.empty\<rparr>"

definition heap0 :: "registry heap" where
  "heap0 = (\<lambda>r. registry0)"

definition handle0 :: StatefulProcessorHandle where
  "handle0 = StatefulProcessorHandle_init 0"

definition vs0 :: ValueState where
  "vs0 = ValueState_init 0 ''count''"

definition ls0 :: ListState where
  "ls0 = ListState_init 0 ''events''"

section \<open>Properties\<close>

subsection \<open>\<open>getListState\<close>\<close>

text \<open>
  C9: for every handle \<open>h\<close>, name and schema, \<open>h.getListState(name, schema)\<close> leaves the
  handle as it was, whatever the client's method does and whether or not it raises:
  \<open>h.state_api_client\<close> is the same reference after the call as before it.
\<close>

theorem getListState_frame:
  "self_of (getListState client_getListState h name sch hp) = h
   \<and> state_api_client (self_of (getListState client_getListState h name sch hp))
       = state_api_client h"
  by (simp add: getListState_def self_of_def split: prod.split sum.split)

text \<open>
  C10: the \<open>ListState\<close> that \<open>h.getListState(name, schema)\<close> returns wraps the handle's
  client reference and the given name, and nothing else: the object is the two-field
  record built from them, the same for every store, so it carries no grouping key.
\<close>

theorem getListState_wraps:
  assumes "fst (getListState client_getListState h name sch hp) = Inr l"
  shows "l = PyListState \<lparr>ls_state_api_client = state_api_client h, ls_state_name = name\<rparr>"
  using assms
  by (auto simp: getListState_def ListState_init_def split: prod.splits sum.splits)

text \<open>
  C10, at a concrete input: on a connected registry with nothing registered, declaring
  \<open>events\<close> returns the \<open>ListState\<close> that holds reference 0 and the name \<open>events\<close>.
\<close>

theorem getListState_wraps_witness:
  "fst (getListState registerList handle0 ''events'' (SchemaStr ''value string'') heap0)
     = Inr (PyListState \<lparr>ls_state_api_client = 0, ls_state_name = ''events''\<rparr>)
   \<and> PyListState \<lparr>ls_state_api_client = 0, ls_state_name = ''events''\<rparr>
     = PyListState \<lparr>ls_state_api_client = state_api_client handle0, ls_state_name = ''events''\<rparr>"
proof -
  have run: "fst (getListState registerList handle0 ''events'' (SchemaStr ''value string'') heap0)
     = Inr (PyListState \<lparr>ls_state_api_client = 0, ls_state_name = ''events''\<rparr>)"
    by (simp add: getListState_def registerList_def handle0_def heap0_def registry0_def
        accept_all_def StatefulProcessorHandle_init_def ListState_init_def)
  from getListState_wraps [OF run] run show ?thesis by simp
qed

text \<open>
  C7: \<open>getListState(name, schema)\<close> passes exactly \<open>(name, schema)\<close> to the registration
  method of the handle's own client object, once, on every call and so on the first one
  for a name. When the client accepts the pair, the call returns the \<open>ListState\<close> whose
  client is the handle's client and whose name is \<open>name\<close>. When the client refuses it, the
  client's error leaves \<open>getListState\<close> as it is and no handle is returned. Either way
  the state the client object is left in is the one its method produced, and the handle
  and every other client object are as they were.
\<close>

theorem getListState_registers:
  "(client_getListState name sch (hp (state_api_client h)) = (Inr v, c') \<longrightarrow>
      getListState client_getListState h name sch hp
        = (Inr (PyListState \<lparr>ls_state_api_client = state_api_client h, ls_state_name = name\<rparr>),
           h, hp(state_api_client h := c')))
   \<and> (client_getListState name sch (hp (state_api_client h)) = (Inl e, c') \<longrightarrow>
      getListState client_getListState h name sch hp
        = (Inl e, h, hp(state_api_client h := c')))"
  by (simp add: getListState_def ListState_init_def)

text \<open>
  C7, at concrete inputs. The first declaration of \<open>events\<close> on a connected registry with
  nothing registered is accepted: the call returns the \<open>ListState\<close> that holds reference
  0 and the name \<open>events\<close>, and the registry then holds \<open>events\<close> as a list variable of
  the given schema. A second declaration of \<open>events\<close> with another schema is refused by
  the registry, and \<open>getListState\<close> raises its \<open>SchemaConflict\<close>.
\<close>

theorem getListState_registers_witness:
  "getListState registerList handle0 ''events'' (SchemaStr ''value string'') heap0
     = (Inr (PyListState \<lparr>ls_state_api_client = 0, ls_state_name = ''events''\<rparr>),
        handle0,
        heap0(0 := registry0
          \<lparr>registered := [''events'' \<mapsto> (ListKind, SchemaStr ''value string'')]\<rparr>))
   \<and> registered
       (heap_of (getListState registerList handle0 ''events'' (SchemaStr ''value string'') heap0)
          (state_api_client handle0)) ''events''
     = Some (ListKind, SchemaStr ''value string'')
   \<and> getListState registerList handle0 ''events'' (SchemaStr ''value int'')
       (heap0(0 := registry0
          \<lparr>registered := [''events'' \<mapsto> (ListKind, SchemaStr ''value string'')]\<rparr>))
     = (Inl SchemaConflict, handle0,
        heap0(0 := registry0
          \<lparr>registered := [''events'' \<mapsto> (ListKind, SchemaStr ''value string'')]\<rparr>))
   \<and> fst (then_call
         (getListState registerList handle0 ''events'' (SchemaStr ''value string'') heap0)
         (\<lambda>h. getListState registerList h ''events'' (SchemaStr ''value int'')))
     = Inl SchemaConflict"
proof -
  let ?r1 = "registry0\<lparr>registered := [''events'' \<mapsto> (ListKind, SchemaStr ''value string'')]\<rparr>"
  have client0: "state_api_client handle0 = 0"
    by (simp add: handle0_def StatefulProcessorHandle_init_def)
  have accepted:
    "registerList ''events'' (SchemaStr ''value string'') (heap0 (state_api_client handle0))
       = (Inr (PyStr ''events''), ?r1)"
    by (simp add: registerList_def heap0_def registry0_def accept_all_def)
  have refused:
    "registerList ''events'' (SchemaStr ''value int'')
       ((heap0(0 := ?r1)) (state_api_client handle0))
       = (Inl SchemaConflict, ?r1)"
    by (simp add: registerList_def client0 registry0_def)
  have first:
    "getListState registerList handle0 ''events'' (SchemaStr ''value string'') heap0
       = (Inr (PyListState \<lparr>ls_state_api_client = 0, ls_state_name = ''events''\<rparr>),
          handle0, heap0(0 := ?r1))"
    using getListState_registers
      [where client_getListState = registerList and hp = heap0 and h = handle0
         and name = "''events''" and sch = "SchemaStr ''value string''"
         and v = "PyStr ''events''" and c' = ?r1]
      accepted
    by (simp add: client0)
  have second:
    "getListState registerList handle0 ''events'' (SchemaStr ''value int'') (heap0(0 := ?r1))
       = (Inl SchemaConflict, handle0, heap0(0 := ?r1))"
    using getListState_registers
      [where client_getListState = registerList and hp = "heap0(0 := ?r1)" and h = handle0
         and name = "''events''" and sch = "SchemaStr ''value int''"
         and e = SchemaConflict and c' = ?r1]
      refused
    by (simp add: client0)
  show ?thesis
    by (simp add: first second then_call_def heap_of_def client0)
qed

subsection \<open>\<open>getValueState\<close>\<close>

text \<open>
  C6: \<open>getValueState\<close> is declared to return a \<open>ValueState\<close>, and its sibling
  \<open>getListState\<close> registers the variable and returns the handle object. The body of
  \<open>getValueState\<close> is \<open>pass\<close>: declaring \<open>count\<close> returns \<open>None\<close>, which is not a
  \<open>ValueState\<close>, and the registry of the handle's client still has no entry for \<open>count\<close>.
\<close>

theorem getValueState_returns_None:
  "getValueState handle0 ''count'' (SchemaStr ''value int'') heap0 = (Inr PyNone, handle0, heap0)
   \<and> fst (getValueState handle0 ''count'' (SchemaStr ''value int'') heap0)
       \<noteq> Inr (PyValueState (ValueState_init (state_api_client handle0) ''count''))
   \<and> registered
       (heap_of (getValueState handle0 ''count'' (SchemaStr ''value int'') heap0)
          (state_api_client handle0)) ''count'' = None"
  by (simp add: getValueState_def heap_of_def heap0_def registry0_def)

text \<open>
  C4: declaring \<open>count\<close> through \<open>getValueState\<close> with the schema \<open>value int\<close> and then
  again with the different schema \<open>value string\<close> raises nothing: the second call
  returns \<open>None\<close> like the first, where a \<open>SchemaConflict\<close> is due.
\<close>

theorem getValueState_twice_no_conflict:
  "then_call (getValueState handle0 ''count'' (SchemaStr ''value int'') heap0)
     (\<lambda>h. getValueState h ''count'' (SchemaStr ''value string''))
     = (Inr PyNone, handle0, heap0)
   \<and> SchemaStr ''value int'' \<noteq> SchemaStr ''value string''
   \<and> fst (then_call (getValueState handle0 ''count'' (SchemaStr ''value int'') heap0)
            (\<lambda>h. getValueState h ''count'' (SchemaStr ''value string'')))
       \<noteq> Inl SchemaConflict"
  by (simp add: getValueState_def then_call_def)

text \<open>
  For comparison, the sibling path: through \<open>getListState\<close> and the registry client a
  repeated declaration with the same schema succeeds again with an equal handle object and
  an unchanged registry, and one with a different schema raises \<open>SchemaConflict\<close>.
\<close>

lemma registerList_again:
  assumes "registered c name = Some (k, sch)" and "connected c"
  shows "registerList name sch c = (Inr (PyStr name), c)"
  using assms by (simp add: registerList_def)

lemma registerList_conflict:
  assumes "registered c name = Some (k, sch')" and "sch' \<noteq> sch" and "connected c"
  shows "registerList name sch c = (Inl SchemaConflict, c)"
  using assms by (simp add: registerList_def)

lemma getListState_again:
  assumes "registered (hp (state_api_client h)) name = Some (k, sch)"
    and "connected (hp (state_api_client h))"
  shows "getListState registerList h name sch hp
           = (Inr (PyListState (ListState_init (state_api_client h) name)), h, hp)"
  using assms by (simp add: getListState_def registerList_again)

lemma getListState_conflict:
  assumes "registered (hp (state_api_client h)) name = Some (k, sch')" and "sch' \<noteq> sch"
    and "connected (hp (state_api_client h))"
  shows "getListState registerList h name sch hp = (Inl SchemaConflict, h, hp)"
  using assms by (simp add: getListState_def registerList_conflict)

subsection \<open>\<open>ValueState\<close>\<close>

text \<open>
  C1, as stated, fails: after \<open>update(1)\<close> the call \<open>get()\<close> does not return \<open>1\<close>.
\<close>

theorem ValueState_update_get_counterexample:
  "fst (then_call (ValueState_update vs0 (PyInt 1) heap0) ValueState_get) \<noteq> Inr (PyInt 1)"
  by (simp add: then_call_def ValueState_update_def ValueState_get_def)

text \<open>
  C1, amended: for every \<open>ValueState\<close> and every value \<open>v\<close>, \<open>update(v)\<close> followed by
  \<open>get()\<close> raises nothing and returns \<open>None\<close>, whatever \<open>v\<close> was; the handle object and
  every client object are as they were before \<open>update\<close>.
\<close>

theorem ValueState_update_get:
  "then_call (ValueState_update st v hp) ValueState_get = (Inr PyNone, st, hp)"
  by (simp add: then_call_def ValueState_update_def ValueState_get_def)


subsection \<open>\<open>ListState\<close>\<close>

text \<open>
  C3, as stated, fails: after \<open>update\<close> with the sequence \<open>x, y\<close> the call \<open>get()\<close> does
  not return an iterator over \<open>x, y\<close>.
\<close>

theorem ListState_update_get_counterexample:
  "fst (then_call (ListState_update ls0 (PyIter [PyStr ''x'', PyStr ''y'']) heap0) ListState_get)
     \<noteq> Inr (PyIter [PyStr ''x'', PyStr ''y''])"
  by (simp add: then_call_def ListState_update_def ListState_get_def)

text \<open>
  C3, amended: for every \<open>ListState\<close> and every finite sequence, after \<open>update(seq)\<close> two
  successive calls of \<open>get()\<close> each return \<open>None\<close>; the calls do not interfere, since
  \<open>get()\<close> leaves the handle object and every client object unchanged.
\<close>

theorem ListState_update_get_twice:
  "then_call (ListState_update ls (PyIter xs) hp) ListState_get = (Inr PyNone, ls, hp)
   \<and> then_call (then_call (ListState_update ls (PyIter xs) hp) ListState_get) ListState_get
       = (Inr PyNone, ls, hp)
   \<and> ListState_get ls hp = (Inr PyNone, ls, hp)"
  by (simp add: then_call_def ListState_update_def ListState_get_def)

subsection \<open>Key isolation\<close>

text \<open>
  C5: the handles hold no key; the engine binds the current key somewhere in the client's
  state, by an operation \<open>bindKey\<close> about which nothing is assumed. Writing \<open>v\<close> under the
  same variable while \<open>k1\<close> is bound and reading after \<open>k2\<close> has been bound gives what
  reading under \<open>k2\<close> gives when nothing was ever written: the write is not visible, for
  \<open>exists\<close> and \<open>get\<close> of \<open>ValueState\<close> and of \<open>ListState\<close>, for all keys and so for
  \<open>k2 \<noteq> k1\<close>.
\<close>

theorem key_isolation:
  "fst (then_call (ValueState_update st v (bindKey k1 hp)) (\<lambda>s h. ValueState_get s (bindKey k2 h)))
     = fst (ValueState_get st (bindKey k2 hp))
   \<and> fst (then_call (ValueState_update st v (bindKey k1 hp))
            (\<lambda>s h. ValueState_exists s (bindKey k2 h)))
     = fst (ValueState_exists st (bindKey k2 hp))
   \<and> fst (then_call (ListState_update ls w (bindKey k1 hp)) (\<lambda>s h. ListState_get s (bindKey k2 h)))
     = fst (ListState_get ls (bindKey k2 hp))
   \<and> fst (then_call (ListState_update ls w (bindKey k1 hp))
            (\<lambda>s h. ListState_exists s (bindKey k2 h)))
     = fst (ListState_exists ls (bindKey k2 hp))"
  by (simp add: then_call_def ValueState_update_def ValueState_get_def ValueState_exists_def
      ListState_update_def ListState_get_def ListState_exists_def)

subsection \<open>After \<open>close()\<close>\<close>

text \<open>
  C8, as stated, fails: \<open>exists()\<close> called after \<open>close()\<close> does not fail with
  \<open>HandleClosed\<close>.
\<close>

theorem exists_after_close_counterexample:
  "fst (ValueState_exists vs0 (heap_of (StatefulProcessor_close () heap0))) \<noteq> Inl HandleClosed"
  by (simp add: ValueState_exists_def)

text \<open>
  C8, amended: \<open>StatefulProcessor.close()\<close> is an abstract hook with an empty body: it
  returns \<open>None\<close> and changes no object, so what is released at close is up to the
  concrete processor. In the state left by \<open>close()\<close>, and in every state whatever, the
  operations \<open>exists\<close>, \<open>get\<close>, \<open>update\<close> and \<open>remove\<close> of \<open>ValueState\<close> and of
  \<open>ListState\<close> do not fail: each returns \<open>None\<close> and changes no object. A declaration
  through \<open>getListState\<close> fails exactly when the client's own method fails, with the
  client's error.
\<close>

theorem state_operations_after_close:
  "StatefulProcessor_close p hp = (Inr PyNone, p, hp)
   \<and> ValueState_exists st (heap_of (StatefulProcessor_close p hp)) = (Inr PyNone, st, hp)
   \<and> ValueState_get st (heap_of (StatefulProcessor_close p hp)) = (Inr PyNone, st, hp)
   \<and> ValueState_update st v (heap_of (StatefulProcessor_close p hp)) = (Inr PyNone, st, hp)
   \<and> ValueState_remove st (heap_of (StatefulProcessor_close p hp)) = (Inr PyNone, st, hp)
   \<and> ListState_exists ls (heap_of (StatefulProcessor_close p hp)) = (Inr PyNone, ls, hp)
   \<and> ListState_get ls (heap_of (StatefulProcessor_close p hp)) = (Inr PyNone, ls, hp)
   \<and> ListState_update ls w (heap_of (StatefulProcessor_close p hp)) = (Inr PyNone, ls, hp)
   \<and> ListState_remove ls (heap_of (StatefulProcessor_close p hp)) = (Inr PyNone, ls, hp)
   \<and> fst (getListState client_getListState h name sch (heap_of (StatefulProcessor_close p hp)))
       = (case fst (client_getListState name sch (hp (state_api_client h))) of
            Inl e \<Rightarrow> Inl e
          | Inr u \<Rightarrow> Inr (PyListState (ListState_init (state_api_client h) name)))"
  by (simp add: StatefulProcessor_close_def heap_of_def getListState_def
      ValueState_exists_def ValueState_get_def ValueState_update_def ValueState_remove_def
      ListState_exists_def ListState_get_def ListState_update_def ListState_remove_def
      split: prod.split sum.split)

end
